theory Spec2Isabelle
  imports Main
begin

section \<open>Python values used by the notebook's Logic Apps adapter\<close>

text \<open>
  The code under study is the class \<open>AzureLogicAppTool\<close> and the factory
  \<open>create_send_email_function\<close> of the Logic Apps notebook.

  A Python \<open>str\<close> is a sequence of Unicode code points; it is modelled as a list of
  natural numbers, so that the pictographs of the printed lines and the escapes of
  \<open>json.dumps\<close> are the ones of the source. \<open>py\<close> turns an ASCII literal into such a
  string.
\<close>

type_synonym pystr = "nat list"

definition py :: "string \<Rightarrow> pystr" where
  "py s = map of_char s"

text \<open>\<open>str(i)\<close> for an integer: decimal digits, with a minus sign when negative.\<close>

fun digits :: "nat \<Rightarrow> pystr" where
  "digits n = (if n < 10 then [48 + n] else digits (n div 10) @ [48 + n mod 10])"

declare digits.simps [simp del]

definition str_int :: "int \<Rightarrow> pystr" where
  "str_int i = (if i < 0 then 45 # digits (nat (- i)) else digits (nat i))"

text \<open>
  The notation \<open>\uXXXX\<close> of a code unit: backslash, \<open>u\<close> and four lower-case
  hexadecimal digits (Python's \<open>'\\u{0:04x}'.format(n)\<close>).
\<close>

definition hex_digit :: "nat \<Rightarrow> nat" where
  "hex_digit d = (if d < 10 then 48 + d else 87 + d)"

definition hex4 :: "nat \<Rightarrow> pystr" where
  "hex4 n =
     [hex_digit (n div 4096 mod 16), hex_digit (n div 256 mod 16),
      hex_digit (n div 16 mod 16), hex_digit (n mod 16)]"

definition u_escape :: "nat \<Rightarrow> pystr" where
  "u_escape n = [92, 117] @ hex4 n"

text \<open>
  A raised exception: whether its class derives from \<open>Exception\<close> (\<open>KeyboardInterrupt\<close>
  and \<open>SystemExit\<close> do not, and \<open>except Exception\<close> lets them through), and \<open>str(e)\<close>.
\<close>

datatype py_exc = PyExc (is_Exception: bool) (descr: pystr)

text \<open>A dictionary with string keys and string values, in insertion order.\<close>

type_synonym py_dict = "(pystr \<times> pystr) list"

section \<open>The outside world\<close>

text \<open>
  What \<open>logic_client.workflow_triggers.list_callback_url\<close> does: it returns an object
  whose \<open>value\<close> is a string or \<open>None\<close>, or it raises.
\<close>

datatype callback_outcome = Callback "pystr option" | CallbackRaises py_exc

text \<open>
  What \<open>requests.post\<close> does: it returns a response with a \<open>status_code\<close> and a
  \<open>text\<close>, or it raises.
\<close>

datatype post_outcome = Response int pystr | PostRaises py_exc

text \<open>
  One call \<open>requests.post(url=..., json=..., timeout=...)\<close>. The payload's values have
  any type \<open>'v\<close> (\<open>Dict[str, Any]\<close>). The url is the value read from the registry.
\<close>

record 'v http_request =
  url :: "pystr option"
  json :: "pystr \<rightharpoonup> 'v"
  timeout :: int

text \<open>
  \<open>Response.ok\<close> of the requests library: \<open>raise_for_status\<close> raises for
  \<open>400 <= status_code < 600\<close>, and \<open>ok\<close> is true when it does not raise.
\<close>

definition response_ok :: "int \<Rightarrow> bool" where
  "response_ok status_code = (status_code < 400 \<or> 600 \<le> status_code)"

text \<open>
  What \<open>sys.stdout\<close> does with the text of one \<open>print\<close> call: it writes it (\<open>None\<close>),
  or it raises, as a text stream does for a text its encoding cannot encode. A stream
  that keeps the text in memory accepts every text.
\<close>

type_synonym stream = "pystr \<Rightarrow> py_exc option"

text \<open>
  The effects of the code: the texts written by \<open>print\<close> (one per call) and the calls
  of \<open>requests.post\<close>, both in order.
\<close>

record 'v world =
  stdout :: "pystr list"
  posts :: "'v http_request list"

text \<open>
  Consecutive \<open>print\<close> calls, one per text: the first call that raises ends the
  sequence with its exception, and its text is not written.
\<close>

fun print :: "stream \<Rightarrow> pystr list \<Rightarrow> 'v world \<Rightarrow> py_exc option \<times> 'v world" where
  "print stdout_write [] w = (None, w)"
| "print stdout_write (line # lines) w =
     (case stdout_write line of
        Some e \<Rightarrow> (Some e, w)
      | None \<Rightarrow> print stdout_write lines (w\<lparr>stdout := stdout w @ [line]\<rparr>))"

text \<open>
  A standard output in UTF-8 with the error handler \<open>strict\<close>: a text holding a surrogate
  code point (\<open>U+D800..U+DFFF\<close>) cannot be encoded, and the write raises
  \<open>UnicodeEncodeError\<close> (a \<open>ValueError\<close>) naming the first run of surrogates.
\<close>

definition is_surrogate :: "nat \<Rightarrow> bool" where
  "is_surrogate c = (55296 \<le> c \<and> c \<le> 57343)"

definition utf8_stdout :: stream where
  "utf8_stdout text =
     (let start = length (takeWhile (\<lambda>c. \<not> is_surrogate c) text);
          run = length (takeWhile is_surrogate (drop start text))
      in if run = 0 then None
         else if run = 1 then
           Some (PyExc True
             ([39] @ py ''utf-8'' @ [39] @ py '' codec can'' @ [39] @ py ''t encode character '' @
              [39] @ u_escape (text ! start) @ [39] @ py '' in position '' @
              str_int (int start) @ py '': surrogates not allowed''))
         else
           Some (PyExc True
             ([39] @ py ''utf-8'' @ [39] @ py '' codec can'' @ [39] @
              py ''t encode characters in position '' @ str_int (int start) @ py ''-'' @
              str_int (int (start + run - 1)) @ py '': surrogates not allowed'')))"

section \<open>AzureLogicAppTool\<close>

text \<open>
  The object's fields. \<open>callback_urls\<close> is the registry; a Python dictionary can hold
  \<open>None\<close> as a value, so the values are optional strings. The management client is
  a handle on the outside world: its behaviour is a parameter of \<open>register_logic_app\<close>.
\<close>

record azure_logic_app_tool =
  subscription_id :: pystr
  resource_group :: pystr
  callback_urls :: "pystr \<rightharpoonup> pystr option"

definition init :: "pystr \<Rightarrow> pystr \<Rightarrow> azure_logic_app_tool" where
  "init subscription_id' resource_group' =
     \<lparr>subscription_id = subscription_id', resource_group = resource_group',
      callback_urls = Map.empty\<rparr>"

subsection \<open>The texts of the print calls\<close>

text \<open>\<open>register_logic_app\<close>: the line after a registration, the message of the
  \<open>ValueError\<close>, and the two lines of the handler.\<close>

definition registered_line :: "pystr \<Rightarrow> pystr" where
  "registered_line logic_app_name = [9989] @ py '' Registered Logic App: '' @ logic_app_name"

definition no_callback_message :: "pystr \<Rightarrow> pystr" where
  "no_callback_message logic_app_name =
     py ''No callback URL returned for Logic App '' @ [39] @ logic_app_name @ [39] @ py ''.''"

definition warning_lines :: "pystr \<Rightarrow> py_exc \<Rightarrow> pystr list" where
  "warning_lines logic_app_name e =
     [[9888, 65039] @ py '' Warning: Could not register Logic App '' @ [39] @
        logic_app_name @ [39] @ py '': '' @ descr e,
      [128161] @ py '' This is expected if the Logic App doesn'' @ [39] @
        py ''t exist - emails will be simulated'']"

text \<open>
  \<open>invoke_logic_app\<close>: the four lines of a simulated email, where \<open>fmt\<close> is Python's
  formatting of a payload value inside an f-string (for a string it is the identity),
  and the line of each of the three outcomes of a post.
\<close>

definition get_formatted :: "('v \<Rightarrow> pystr) \<Rightarrow> (pystr \<rightharpoonup> 'v) \<Rightarrow> pystr \<Rightarrow> pystr \<Rightarrow> pystr" where
  "get_formatted fmt payload key dflt = (case payload key of None \<Rightarrow> dflt | Some v \<Rightarrow> fmt v)"

definition simulated_lines :: "('v \<Rightarrow> pystr) \<Rightarrow> (pystr \<rightharpoonup> 'v) \<Rightarrow> pystr list" where
  "simulated_lines fmt payload =
     [[128231] @ py '' SIMULATED EMAIL:'',
      py ''   To: '' @ get_formatted fmt payload (py ''to'') (py ''unknown''),
      py ''   Subject: '' @ get_formatted fmt payload (py ''subject'') (py ''unknown''),
      py ''   Body: '' @ get_formatted fmt payload (py ''body'') (py ''unknown'')]"

definition invoked_line :: "pystr \<Rightarrow> pystr" where
  "invoked_line logic_app_name =
     [9989] @ py '' Successfully invoked Logic App: '' @ logic_app_name"

definition error_line :: "pystr \<Rightarrow> int \<Rightarrow> pystr" where
  "error_line logic_app_name status_code =
     [9888, 65039] @ py '' Error invoking Logic App: '' @ logic_app_name @ py '' ('' @
     str_int status_code @ py '')''"

definition exception_line :: "pystr \<Rightarrow> py_exc \<Rightarrow> pystr" where
  "exception_line logic_app_name e =
     [9888, 65039] @ py '' Exception invoking Logic App: '' @ logic_app_name @ py '' - '' @
     descr e"

text \<open>\<open>send_email_via_logic_app\<close>: its one line.\<close>

definition sent_line :: pystr where
  "sent_line = [128231] @ py '' Email sent via Logic App:''"

subsection \<open>register_logic_app\<close>

text \<open>
  The body is inside \<open>try\<close>: the resolver call, the \<open>ValueError\<close> for a missing value,
  the assignment to the registry and then the print of the registration line. An
  exception of the body that derives from \<open>Exception\<close> goes to the handler, which
  prints two lines; what a print of the handler raises leaves the method.
\<close>

definition register_logic_app ::
  "(pystr \<Rightarrow> pystr \<Rightarrow> pystr \<Rightarrow> callback_outcome) \<Rightarrow> stream \<Rightarrow> azure_logic_app_tool \<Rightarrow> pystr \<Rightarrow>
   pystr \<Rightarrow> 'v world \<Rightarrow> (py_exc + unit) \<times> azure_logic_app_tool \<times> 'v world" where
  "register_logic_app list_callback_url stdout_write self logic_app_name trigger_name w =
     (let attempt =
            (case list_callback_url (resource_group self) logic_app_name trigger_name of
               CallbackRaises e \<Rightarrow> (Some e, self, w)
             | Callback v \<Rightarrow>
                 if v = None then
                   (Some (PyExc True (no_callback_message logic_app_name)), self, w)
                 else
                   (case print stdout_write [registered_line logic_app_name] w of
                      (raised, w') \<Rightarrow>
                        (raised,
                         self\<lparr>callback_urls := (callback_urls self)(logic_app_name \<mapsto> v)\<rparr>,
                         w')))
      in case attempt of
           (None, self', w') \<Rightarrow> (Inr (), self', w')
         | (Some e, self', w') \<Rightarrow>
             if is_Exception e then
               (case print stdout_write (warning_lines logic_app_name e) w' of
                  (Some e', w'') \<Rightarrow> (Inl e', self', w'')
                | (None, w'') \<Rightarrow> (Inr (), self', w''))
             else (Inl e, self', w'))"

subsection \<open>invoke_logic_app\<close>

text \<open>
  For a name that is not registered the four prints and the \<open>return\<close> are outside any
  \<open>try\<close>. For a registered name the post and the print of its outcome are inside
  \<open>try\<close>; an exception of these that derives from \<open>Exception\<close> goes to the handler,
  which prints one line and returns the error dictionary; what the handler's print
  raises leaves the method.
\<close>

definition invoke_logic_app ::
  "('v \<Rightarrow> pystr) \<Rightarrow> stream \<Rightarrow> ('v http_request \<Rightarrow> post_outcome) \<Rightarrow> azure_logic_app_tool \<Rightarrow>
   pystr \<Rightarrow> (pystr \<rightharpoonup> 'v) \<Rightarrow> 'v world \<Rightarrow> (py_exc + py_dict) \<times> azure_logic_app_tool \<times> 'v world" where
  "invoke_logic_app fmt stdout_write requests_post self logic_app_name payload w =
     (if logic_app_name \<notin> dom (callback_urls self) then
        (case print stdout_write (simulated_lines fmt payload) w of
           (Some e, w') \<Rightarrow> (Inl e, self, w')
         | (None, w') \<Rightarrow>
             (Inr [(py ''result'',
                    py ''Successfully simulated email via '' @ logic_app_name @ py ''.'')],
              self, w'))
      else
        let url' = the (callback_urls self logic_app_name);
            request = \<lparr>url = url', json = payload, timeout = 30\<rparr>;
            w1 = w\<lparr>posts := posts w @ [request]\<rparr>;
            attempt =
              (case requests_post request of
                 PostRaises e \<Rightarrow> (Inl e, w1)
               | Response status_code text \<Rightarrow>
                   if response_ok status_code then
                     (case print stdout_write [invoked_line logic_app_name] w1 of
                        (Some e, w') \<Rightarrow> (Inl e, w')
                      | (None, w') \<Rightarrow>
                          (Inr [(py ''result'',
                                 py ''Successfully invoked '' @ logic_app_name @ py ''.'')],
                           w'))
                   else
                     (case print stdout_write [error_line logic_app_name status_code] w1 of
                        (Some e, w') \<Rightarrow> (Inl e, w')
                      | (None, w') \<Rightarrow>
                          (Inr [(py ''error'',
                                 py ''Error invoking '' @ logic_app_name @ py '' ('' @
                                 str_int status_code @ py ''): '' @ text)],
                           w')))
        in case attempt of
             (Inr result, w2) \<Rightarrow> (Inr result, self, w2)
           | (Inl e, w2) \<Rightarrow>
               if is_Exception e then
                 (case print stdout_write [exception_line logic_app_name e] w2 of
                    (Some e', w') \<Rightarrow> (Inl e', self, w')
                  | (None, w') \<Rightarrow>
                      (Inr [(py ''error'',
                             py ''Error invoking '' @ logic_app_name @ py '': '' @ descr e)],
                       self, w'))
               else (Inl e, self, w2))"

section \<open>json.dumps on a dictionary of strings\<close>

text \<open>
  \<open>json.dumps\<close> with its defaults (\<open>ensure_ascii=True\<close>, separators \<open>", "\<close> and
  \<open>": "\<close>). A string is written between double quotes; backslash, double quote
  and the control characters with a short form get that form, every other character
  outside the printable ASCII range \<open>' '..'~'\<close> becomes \<open>\uXXXX\<close>, and a code point
  from \<open>0x10000\<close> on becomes a surrogate pair.
\<close>

definition escape_char :: "nat \<Rightarrow> pystr" where
  "escape_char c =
     (if c = 92 then [92, 92]
      else if c = 34 then [92, 34]
      else if c = 8 then [92, 98]
      else if c = 12 then [92, 102]
      else if c = 10 then [92, 110]
      else if c = 13 then [92, 114]
      else if c = 9 then [92, 116]
      else if 32 \<le> c \<and> c \<le> 126 then [c]
      else if c < 65536 then u_escape c
      else u_escape (55296 + (c - 65536) div 1024 mod 1024) @
           u_escape (56320 + (c - 65536) mod 1024))"

definition encode_basestring_ascii :: "pystr \<Rightarrow> pystr" where
  "encode_basestring_ascii s = [34] @ concat (map escape_char s) @ [34]"

fun join :: "pystr \<Rightarrow> pystr list \<Rightarrow> pystr" where
  "join sep [] = []"
| "join sep [x] = x"
| "join sep (x # y # ys) = x @ sep @ join sep (y # ys)"

definition json_item :: "pystr \<times> pystr \<Rightarrow> pystr" where
  "json_item = (\<lambda>(k, v). encode_basestring_ascii k @ py '': '' @ encode_basestring_ascii v)"

definition json_dumps :: "py_dict \<Rightarrow> pystr" where
  "json_dumps d = [123] @ join (py '', '') (map json_item d) @ [125]"

section \<open>create_send_email_function\<close>

text \<open>
  The closure \<open>send_email_via_logic_app\<close> keeps a reference to the service object and the
  workflow name. The object's state when the closure is called is the argument
  \<open>service\<close>. The payload's values are strings, which an f-string prints as they are.
  Nothing is caught here: an exception that leaves \<open>invoke_logic_app\<close>, or that the
  print raises, leaves the closure.
\<close>

definition send_email_via_logic_app ::
  "stream \<Rightarrow> (pystr http_request \<Rightarrow> post_outcome) \<Rightarrow> pystr \<Rightarrow> pystr \<Rightarrow> pystr \<Rightarrow> pystr \<Rightarrow>
   azure_logic_app_tool \<Rightarrow> pystr world \<Rightarrow> (py_exc + pystr) \<times> azure_logic_app_tool \<times> pystr world" where
  "send_email_via_logic_app stdout_write requests_post logic_app_name to subject body service w =
     (let payload = [py ''to'' \<mapsto> to, py ''subject'' \<mapsto> subject, py ''body'' \<mapsto> body]
      in case invoke_logic_app (\<lambda>s. s) stdout_write requests_post service logic_app_name
                payload w of
           (Inl e, service', w') \<Rightarrow> (Inl e, service', w')
         | (Inr result, service', w') \<Rightarrow>
             (case print stdout_write [sent_line] w' of
                (Some e, w'') \<Rightarrow> (Inl e, service', w'')
              | (None, w'') \<Rightarrow> (Inr (json_dumps result), service', w'')))"

definition create_send_email_function ::
  "pystr \<Rightarrow> stream \<Rightarrow> (pystr http_request \<Rightarrow> post_outcome) \<Rightarrow> pystr \<Rightarrow> pystr \<Rightarrow> pystr \<Rightarrow>
   azure_logic_app_tool \<Rightarrow> pystr world \<Rightarrow> (py_exc + pystr) \<times> azure_logic_app_tool \<times> pystr world" where
  "create_send_email_function logic_app_name =
     (\<lambda>stdout_write requests_post.
        send_email_via_logic_app stdout_write requests_post logic_app_name)"

section \<open>Reading a JSON text back\<close>














text \<open>
  Unicode text: code points up to \<open>U+10FFFF\<close>, none of them a surrogate. This is what
  text that came over the network or from a user is; a Python \<open>str\<close> can hold more.
\<close>

definition unicode_text :: "pystr \<Rightarrow> bool" where
  "unicode_text s = (\<forall>c\<in>set s. c < 1114112 \<and> \<not> is_surrogate c)"


section \<open>Outcomes\<close>

text \<open>
  The dictionary returned by \<open>invoke_logic_app\<close> has one entry: the key \<open>result\<close> on
  success, the key \<open>error\<close> on failure.
\<close>

definition is_Success :: "py_exc + py_dict \<Rightarrow> bool" where
  "is_Success r = (case r of Inr [(k, m)] \<Rightarrow> k = py ''result'' | _ \<Rightarrow> False)"

definition is_Failure :: "py_exc + py_dict \<Rightarrow> bool" where
  "is_Failure r = (case r of Inr [(k, m)] \<Rightarrow> k = py ''error'' | _ \<Rightarrow> False)"

section \<open>Properties\<close>

subsection \<open>Printing\<close>

lemma print_accepted:
  "\<forall>line\<in>set lines. stdout_write line = None \<Longrightarrow>
   print stdout_write lines w = (None, w\<lparr>stdout := stdout w @ lines\<rparr>)"
  by (induction lines arbitrary: w) simp_all

lemma print_posts: "posts (snd (print stdout_write lines w)) = posts w"
  by (induction lines arbitrary: w) (simp_all split: option.splits)

lemma print_raised:
  "fst (print stdout_write lines w) = Some e \<Longrightarrow> \<exists>line\<in>set lines. stdout_write line = Some e"
  by (induction lines arbitrary: w) (auto split: option.splits)

lemma print_outcome:
  "(\<forall>line\<in>set lines. stdout_write line = None) \<and>
     print stdout_write lines w = (None, w\<lparr>stdout := stdout w @ lines\<rparr>) \<or>
   (\<exists>e w'. print stdout_write lines w = (Some e, w') \<and>
      (\<exists>line\<in>set lines. stdout_write line = Some e) \<and> posts w' = posts w)"
proof (cases "fst (print stdout_write lines w)")
  case None
  have "\<forall>line\<in>set lines. stdout_write line = None"
    using None by (induction lines arbitrary: w) (auto split: option.splits)
  then show ?thesis
    using print_accepted by blast
next
  case (Some e)
  then have "print stdout_write lines w = (Some e, snd (print stdout_write lines w))"
    by (simp add: prod_eq_iff)
  then show ?thesis
    using print_raised [OF Some] print_posts by blast
qed

lemma py_result_neq_error: "py ''result'' \<noteq> py ''error''"
  by (simp add: py_def)

text \<open>
  A standard output in UTF-8 accepts every text without a surrogate; so it accepts, for
  every name that is Unicode text, the line that reports an invocation, an error
  status or a registration.
\<close>

lemma utf8_stdout_accepts: "\<forall>c\<in>set text. \<not> is_surrogate c \<Longrightarrow> utf8_stdout text = None"
proof -
  assume a: "\<forall>c\<in>set text. \<not> is_surrogate c"
  have tw: "takeWhile (\<lambda>c. \<not> is_surrogate c) text = text"
    using a by (simp add: takeWhile_eq_all_conv)
  show ?thesis
    unfolding utf8_stdout_def Let_def tw by simp
qed

lemma digits_range: "c \<in> set (digits n) \<Longrightarrow> 48 \<le> c \<and> c \<le> 57"
proof (induction n arbitrary: c rule: digits.induct)
  case (1 n)
  show ?case
  proof (cases "n < 10")
    case True
    with "1.prems" show ?thesis
      by (simp add: digits.simps [of n])
  next
    case False
    have "n mod 10 < 10" by simp
    with False "1.prems" "1.IH" show ?thesis
      by (auto simp add: digits.simps [of n])
  qed
qed

lemma str_int_no_surrogate: "c \<in> set (str_int i) \<Longrightarrow> \<not> is_surrogate c"
  using digits_range by (fastforce simp add: str_int_def is_surrogate_def split: if_splits)

lemma of_char_small: "(of_char x :: nat) < 256"
proof -
  have "(of_char x :: nat) mod 256 < 256"
    by simp
  then show ?thesis
    by (simp only: of_char_mod_256)
qed

lemma py_no_surrogate: "c \<in> set (py s) \<Longrightarrow> \<not> is_surrogate c"
proof -
  assume "c \<in> set (py s)"
  then obtain x where "c = of_char x"
    by (auto simp add: py_def)
  then have "c < 256"
    using of_char_small [of x] by simp
  then show ?thesis
    by (simp add: is_surrogate_def)
qed

lemma utf8_stdout_accepts_outcome_lines:
  assumes "unicode_text logic_app_name"
  shows "utf8_stdout (invoked_line logic_app_name) = None"
    and "utf8_stdout (error_line logic_app_name status_code) = None"
    and "utf8_stdout (registered_line logic_app_name) = None"
  using assms py_no_surrogate str_int_no_surrogate
  by (auto intro!: utf8_stdout_accepts
      simp add: invoked_line_def error_line_def registered_line_def unicode_text_def
        is_surrogate_def)

subsection \<open>Dispatch of a name that is not registered\<close>







subsection \<open>Dispatch of a registered name\<close>

text \<open>
  C2, as the code has it. For a registered name and a call of \<open>requests.post\<close> that
  returns a response, \<open>invoke_logic_app\<close> tests \<open>response.ok\<close> and prints one line, which
  holds the name and, for an error, the status code; the standard output is taken to
  accept that line. The outcome is a success exactly when the status code is outside
  \<open>400..599\<close>, and for a status code inside \<open>400..599\<close> it is the dictionary
  \<open>{"error": "Error invoking <name> (<status>): <response text>"}\<close>. A status such as
  304 is therefore a success, although it is not a 2xx status.
\<close>

theorem invoke_success_iff_response_ok:
  assumes "callback_urls self logic_app_name = Some endpoint"
      and "requests_post \<lparr>url = endpoint, json = payload, timeout = 30\<rparr> =
             Response status_code response_text"
      and "stdout_write (if response_ok status_code then invoked_line logic_app_name
                         else error_line logic_app_name status_code) = None"
  shows "(is_Success (fst (invoke_logic_app fmt stdout_write requests_post self logic_app_name
             payload w))
            \<longleftrightarrow> status_code < 400 \<or> 600 \<le> status_code) \<and>
         (is_Failure (fst (invoke_logic_app fmt stdout_write requests_post self logic_app_name
             payload w))
            \<longleftrightarrow> 400 \<le> status_code \<and> status_code < 600) \<and>
         (400 \<le> status_code \<and> status_code < 600 \<longrightarrow>
            fst (invoke_logic_app fmt stdout_write requests_post self logic_app_name payload w) =
              Inr [(py ''error'', py ''Error invoking '' @ logic_app_name @ py '' ('' @
                     str_int status_code @ py ''): '' @ response_text)])"
  using assms py_result_neq_error
  by (auto simp add: invoke_logic_app_def Let_def domIff response_ok_def is_Success_def
      is_Failure_def split: if_splits)

theorem invoke_success_iff_response_ok_witness:
  "callback_urls ((init (py ''sub'') (py ''rg''))\<lparr>callback_urls := [py ''wf'' \<mapsto> Some (py ''https://example.org/hook'')]\<rparr>) (py ''wf'') = Some (Some (py ''https://example.org/hook'')) \<and>
   is_Failure (fst (invoke_logic_app (\<lambda>s. s) utf8_stdout (\<lambda>r. Response 500 (py ''boom''))
       ((init (py ''sub'') (py ''rg''))\<lparr>callback_urls := [py ''wf'' \<mapsto> Some (py ''https://example.org/hook'')]\<rparr>) (py ''wf'') [py ''to'' \<mapsto> py ''a@b.com''] \<lparr>stdout = [], posts = []\<rparr>)) \<and>
   fst (invoke_logic_app (\<lambda>s. s) utf8_stdout (\<lambda>r. Response 500 (py ''boom''))
       ((init (py ''sub'') (py ''rg''))\<lparr>callback_urls := [py ''wf'' \<mapsto> Some (py ''https://example.org/hook'')]\<rparr>) (py ''wf'') [py ''to'' \<mapsto> py ''a@b.com''] \<lparr>stdout = [], posts = []\<rparr>) =
     Inr [(py ''error'', py ''Error invoking wf (500): boom'')]"
  using invoke_success_iff_response_ok
    [where self = "(init (py ''sub'') (py ''rg''))\<lparr>callback_urls := [py ''wf'' \<mapsto> Some (py ''https://example.org/hook'')]\<rparr>" and logic_app_name = "py ''wf''" and endpoint = "Some (py ''https://example.org/hook'')"
       and requests_post = "\<lambda>r. Response 500 (py ''boom'')" and payload = "[py ''to'' \<mapsto> py ''a@b.com'']"
       and status_code = "500" and response_text = "py ''boom''" and fmt = "\<lambda>s. s"
       and stdout_write = utf8_stdout and w = "\<lparr>stdout = [], posts = []\<rparr>"]
  by (simp add: py_def str_int_def digits.simps is_Success_def is_Failure_def response_ok_def
      error_line_def utf8_stdout_def is_surrogate_def)

text \<open>
  C2 as the specification words it (success exactly for a 2xx status) fails: the
  endpoint answers 304, which is not a 2xx status, and the outcome is a success.
\<close>

theorem invoke_success_iff_2xx_counterexample:
  "is_Success (fst (invoke_logic_app (\<lambda>s. s) utf8_stdout (\<lambda>r. Response 304 [])
       ((init (py ''sub'') (py ''rg''))\<lparr>callback_urls := [py ''wf'' \<mapsto> Some (py ''https://example.org/hook'')]\<rparr>) (py ''wf'') [py ''to'' \<mapsto> py ''a@b.com''] \<lparr>stdout = [], posts = []\<rparr>)) \<and>
   \<not> is_Failure (fst (invoke_logic_app (\<lambda>s. s) utf8_stdout (\<lambda>r. Response 304 [])
       ((init (py ''sub'') (py ''rg''))\<lparr>callback_urls := [py ''wf'' \<mapsto> Some (py ''https://example.org/hook'')]\<rparr>) (py ''wf'') [py ''to'' \<mapsto> py ''a@b.com''] \<lparr>stdout = [], posts = []\<rparr>)) \<and>
   \<not> (200 \<le> (304::int) \<and> (304::int) < 300)"
  by (simp add: invoke_logic_app_def Let_def domIff response_ok_def is_Success_def
      is_Failure_def py_def invoked_line_def utf8_stdout_def is_surrogate_def)

text \<open>
  C3, as the code has it. For a registered name, when \<open>requests.post\<close> raises an
  exception deriving from \<open>Exception\<close> (as the transport errors of the requests library
  do), the handler prints one line, which holds the name and \<open>str(e)\<close>; when the
  standard output accepts that line, \<open>invoke_logic_app\<close> returns the dictionary
  \<open>{"error": "Error invoking <name>: <str(e)>"}\<close>. And whatever the name and the
  registry: when every exception the post can raise derives from \<open>Exception\<close>, the
  call returns a success or a failure dictionary, or it lets through an exception that a
  print raised; no exception of the post leaves it.
\<close>

theorem invoke_remote_failure_is_value:
  "(callback_urls self logic_app_name = Some endpoint \<and>
    requests_post \<lparr>url = endpoint, json = payload, timeout = 30\<rparr> = PostRaises e \<and>
    is_Exception e \<and> stdout_write (exception_line logic_app_name e) = None \<longrightarrow>
      invoke_logic_app fmt stdout_write requests_post self logic_app_name payload w =
        (Inr [(py ''error'', py ''Error invoking '' @ logic_app_name @ py '': '' @ descr e)],
         self,
         \<lparr>stdout = stdout w @
            [[9888, 65039] @ py '' Exception invoking Logic App: '' @ logic_app_name @
             py '' - '' @ descr e],
          posts = posts w @ [\<lparr>url = endpoint, json = payload, timeout = 30\<rparr>]\<rparr>)) \<and>
   ((\<forall>endpoint' e'. callback_urls self logic_app_name = Some endpoint' \<longrightarrow>
        requests_post \<lparr>url = endpoint', json = payload, timeout = 30\<rparr> = PostRaises e' \<longrightarrow>
        is_Exception e') \<longrightarrow>
      (case fst (invoke_logic_app fmt stdout_write requests_post self logic_app_name
                   payload w) of
         Inr result \<Rightarrow> is_Success (Inr result) \<or> is_Failure (Inr result)
       | Inl e'' \<Rightarrow> \<exists>line. stdout_write line = Some e''))"
proof (intro conjI impI)
  assume "callback_urls self logic_app_name = Some endpoint \<and>
    requests_post \<lparr>url = endpoint, json = payload, timeout = 30\<rparr> = PostRaises e \<and>
    is_Exception e \<and> stdout_write (exception_line logic_app_name e) = None"
  then show "invoke_logic_app fmt stdout_write requests_post self logic_app_name payload w =
        (Inr [(py ''error'', py ''Error invoking '' @ logic_app_name @ py '': '' @ descr e)],
         self,
         \<lparr>stdout = stdout w @
            [[9888, 65039] @ py '' Exception invoking Logic App: '' @ logic_app_name @
             py '' - '' @ descr e],
          posts = posts w @ [\<lparr>url = endpoint, json = payload, timeout = 30\<rparr>]\<rparr>)"
    by (simp add: invoke_logic_app_def Let_def domIff exception_line_def)
next
  assume remote: "\<forall>endpoint' e'. callback_urls self logic_app_name = Some endpoint' \<longrightarrow>
        requests_post \<lparr>url = endpoint', json = payload, timeout = 30\<rparr> = PostRaises e' \<longrightarrow>
        is_Exception e'"
  show "case fst (invoke_logic_app fmt stdout_write requests_post self logic_app_name
                   payload w) of
         Inr result \<Rightarrow> is_Success (Inr result) \<or> is_Failure (Inr result)
       | Inl e'' \<Rightarrow> \<exists>line. stdout_write line = Some e''"
  proof (cases "callback_urls self logic_app_name")
    case None
    consider
      (accepted) "print stdout_write (simulated_lines fmt payload) w =
           (None, w\<lparr>stdout := stdout w @ simulated_lines fmt payload\<rparr>)"
    | (raised) e w' where "print stdout_write (simulated_lines fmt payload) w = (Some e, w')"
        "\<exists>line\<in>set (simulated_lines fmt payload). stdout_write line = Some e"
      using print_outcome [of "simulated_lines fmt payload" stdout_write w] by blast
    then show ?thesis
    proof cases
      case accepted
      then show ?thesis
        using None by (simp add: invoke_logic_app_def domIff is_Success_def)
    next
      case raised
      then show ?thesis
        using None by (auto simp add: invoke_logic_app_def domIff)
    qed
  next
    case (Some endpoint')
    show ?thesis
    proof (cases "requests_post \<lparr>url = endpoint', json = payload, timeout = 30\<rparr>")
      case (Response status_code response_text)
      then show ?thesis
        using Some
        by (auto simp add: invoke_logic_app_def Let_def domIff is_Success_def is_Failure_def
            split: option.splits)
    next
      case (PostRaises e')
      then have "is_Exception e'"
        using remote Some by blast
      then show ?thesis
        using Some PostRaises
        by (auto simp add: invoke_logic_app_def Let_def domIff is_Success_def is_Failure_def
            split: option.splits)
    qed
  qed
qed

theorem invoke_remote_failure_is_value_witness:
  "invoke_logic_app (\<lambda>s. s) utf8_stdout (\<lambda>r. PostRaises (PyExc True (py ''timed out'')))
       ((init (py ''sub'') (py ''rg''))\<lparr>callback_urls := [py ''wf'' \<mapsto> Some (py ''https://example.org/hook'')]\<rparr>) (py ''wf'') [py ''to'' \<mapsto> py ''a@b.com''] \<lparr>stdout = [], posts = []\<rparr> =
     (Inr [(py ''error'', py ''Error invoking wf: timed out'')],
      (init (py ''sub'') (py ''rg''))\<lparr>callback_urls := [py ''wf'' \<mapsto> Some (py ''https://example.org/hook'')]\<rparr>,
      \<lparr>stdout = [[9888, 65039] @ py '' Exception invoking Logic App: wf - timed out''],
       posts = [\<lparr>url = Some (py ''https://example.org/hook''), json = [py ''to'' \<mapsto> py ''a@b.com''], timeout = 30\<rparr>]\<rparr>) \<and>
   is_Failure (fst (invoke_logic_app (\<lambda>s. s) utf8_stdout
       (\<lambda>r. PostRaises (PyExc True (py ''timed out''))) ((init (py ''sub'') (py ''rg''))\<lparr>callback_urls := [py ''wf'' \<mapsto> Some (py ''https://example.org/hook'')]\<rparr>) (py ''wf'') [py ''to'' \<mapsto> py ''a@b.com''] \<lparr>stdout = [], posts = []\<rparr>))"
  using invoke_remote_failure_is_value
    [where self = "(init (py ''sub'') (py ''rg''))\<lparr>callback_urls := [py ''wf'' \<mapsto> Some (py ''https://example.org/hook'')]\<rparr>" and logic_app_name = "py ''wf''" and endpoint = "Some (py ''https://example.org/hook'')"
       and requests_post = "\<lambda>r. PostRaises (PyExc True (py ''timed out''))" and payload = "[py ''to'' \<mapsto> py ''a@b.com'']"
       and e = "PyExc True (py ''timed out'')" and fmt = "\<lambda>s. s"
       and stdout_write = utf8_stdout and w = "\<lparr>stdout = [], posts = []\<rparr>"]
  by (simp add: py_def is_Success_def is_Failure_def exception_line_def utf8_stdout_def
      is_surrogate_def)

text \<open>
  C3 as the specification words it (a failure result for every transport error, and
  no exception propagated) fails: the error text holds a surrogate, as the text of an
  operating system error about a path with undecodable bytes does; on a standard
  output in UTF-8 the handler's print raises \<open>UnicodeEncodeError\<close>, which leaves
  \<open>invoke_logic_app\<close> in place of the error dictionary.
\<close>

theorem invoke_remote_failure_propagates_counterexample:
  "invoke_logic_app (\<lambda>s. s) utf8_stdout
       (\<lambda>r. PostRaises (PyExc True (py ''bad path /tmp/'' @ [56575])))
       ((init (py ''sub'') (py ''rg''))\<lparr>callback_urls := [py ''wf'' \<mapsto> Some (py ''https://example.org/hook'')]\<rparr>) (py ''wf'') [py ''to'' \<mapsto> py ''a@b.com''] \<lparr>stdout = [], posts = []\<rparr> =
     (Inl (PyExc True
        ([39] @ py ''utf-8'' @ [39] @ py '' codec can'' @ [39] @ py ''t encode character '' @
         [39, 92] @ py ''udcff'' @ [39] @ py '' in position 52: surrogates not allowed'')),
      (init (py ''sub'') (py ''rg''))\<lparr>callback_urls := [py ''wf'' \<mapsto> Some (py ''https://example.org/hook'')]\<rparr>,
      \<lparr>stdout = [], posts = [\<lparr>url = Some (py ''https://example.org/hook''), json = [py ''to'' \<mapsto> py ''a@b.com''], timeout = 30\<rparr>]\<rparr>) \<and>
   \<not> is_Failure (fst (invoke_logic_app (\<lambda>s. s) utf8_stdout
       (\<lambda>r. PostRaises (PyExc True (py ''bad path /tmp/'' @ [56575])))
       ((init (py ''sub'') (py ''rg''))\<lparr>callback_urls := [py ''wf'' \<mapsto> Some (py ''https://example.org/hook'')]\<rparr>) (py ''wf'') [py ''to'' \<mapsto> py ''a@b.com''] \<lparr>stdout = [], posts = []\<rparr>))"
  by (simp add: invoke_logic_app_def Let_def domIff init_def py_def exception_line_def
      utf8_stdout_def is_surrogate_def u_escape_def hex4_def hex_digit_def str_int_def
      digits.simps is_Failure_def)



subsection \<open>Registration\<close>

lemma invoke_unregistered_posts:
  "logic_app_name \<notin> dom (callback_urls self) \<Longrightarrow>
   posts (snd (snd (invoke_logic_app fmt stdout_write requests_post self logic_app_name
     payload w))) = posts w"
  using print_posts [of stdout_write "simulated_lines fmt payload" w]
  by (auto simp add: invoke_logic_app_def split: prod.splits option.splits)

lemma invoke_unregistered_accepted:
  "logic_app_name \<notin> dom (callback_urls self) \<Longrightarrow>
   \<forall>line\<in>set (simulated_lines fmt payload). stdout_write line = None \<Longrightarrow>
   invoke_logic_app fmt stdout_write requests_post self logic_app_name payload w =
     (Inr [(py ''result'', py ''Successfully simulated email via '' @ logic_app_name @ py ''.'')],
      self, w\<lparr>stdout := stdout w @ simulated_lines fmt payload\<rparr>)"
  by (simp add: invoke_logic_app_def print_accepted)

text \<open>
  C4, as the code has it. When the resolver fails, that is, \<open>list_callback_url\<close> raises
  an exception deriving from \<open>Exception\<close> or returns an object whose \<open>value\<close> is
  \<open>None\<close>, \<open>register_logic_app\<close> leaves the object (so the registry) as it was and
  posts nothing, and a name that was not registered before is still dispatched by
  simulation afterwards: that dispatch posts nothing and, when the standard output
  accepts its four lines, returns the simulated success. The handler prints two warning
  lines, which hold the name and the text of the exception: when the standard output
  accepts them the method returns normally, and the only exception that can leave it is
  one raised by a print.
\<close>

theorem register_failure_leaves_registry:
  assumes "case list_callback_url (resource_group self) logic_app_name trigger_name of
             CallbackRaises e \<Rightarrow> is_Exception e
           | Callback v \<Rightarrow> v = None"
  shows "fst (snd (register_logic_app list_callback_url stdout_write self logic_app_name
           trigger_name w)) = self \<and>
         posts (snd (snd (register_logic_app list_callback_url stdout_write self logic_app_name
           trigger_name w))) = posts w \<and>
         ((\<forall>line\<in>set (warning_lines logic_app_name
              (case list_callback_url (resource_group self) logic_app_name trigger_name of
                 CallbackRaises e \<Rightarrow> e
               | Callback v \<Rightarrow> PyExc True (no_callback_message logic_app_name))).
             stdout_write line = None) \<longrightarrow>
            fst (register_logic_app list_callback_url stdout_write self logic_app_name
              trigger_name w) = Inr () \<and>
            length (stdout (snd (snd (register_logic_app list_callback_url stdout_write self
              logic_app_name trigger_name w)))) = length (stdout w) + 2) \<and>
         (\<forall>e. fst (register_logic_app list_callback_url stdout_write self logic_app_name
                  trigger_name w) = Inl e \<longrightarrow> (\<exists>line. stdout_write line = Some e)) \<and>
         (logic_app_name \<notin> dom (callback_urls self) \<longrightarrow>
            posts (snd (snd (invoke_logic_app fmt stdout_write requests_post
                  (fst (snd (register_logic_app list_callback_url stdout_write self
                     logic_app_name trigger_name w)))
                  logic_app_name payload
                  (snd (snd (register_logic_app list_callback_url stdout_write self
                     logic_app_name trigger_name w)))))) = posts w \<and>
            ((\<forall>line\<in>set (simulated_lines fmt payload). stdout_write line = None) \<longrightarrow>
               fst (invoke_logic_app fmt stdout_write requests_post
                  (fst (snd (register_logic_app list_callback_url stdout_write self
                     logic_app_name trigger_name w)))
                  logic_app_name payload
                  (snd (snd (register_logic_app list_callback_url stdout_write self
                     logic_app_name trigger_name w)))) =
                 Inr [(py ''result'',
                       py ''Successfully simulated email via '' @ logic_app_name @ py ''.'')]))"
proof -
  define failure where "failure =
    (case list_callback_url (resource_group self) logic_app_name trigger_name of
       CallbackRaises e \<Rightarrow> e
     | Callback v \<Rightarrow> PyExc True (no_callback_message logic_app_name))"
  define R where "R =
    register_logic_app list_callback_url stdout_write self logic_app_name trigger_name w"
  have exc: "is_Exception failure"
    using assms by (simp add: failure_def split: callback_outcome.splits)
  have R: "R = (case print stdout_write (warning_lines logic_app_name failure) w of
                  (Some e', w'') \<Rightarrow> (Inl e', self, w'')
                | (None, w'') \<Rightarrow> (Inr (), self, w''))"
    using assms exc
    by (simp add: R_def register_logic_app_def failure_def split: callback_outcome.splits)
  consider
    (accepted) "\<forall>line\<in>set (warning_lines logic_app_name failure). stdout_write line = None"
      "print stdout_write (warning_lines logic_app_name failure) w =
         (None, w\<lparr>stdout := stdout w @ warning_lines logic_app_name failure\<rparr>)"
  | (raised) e w' where
      "print stdout_write (warning_lines logic_app_name failure) w = (Some e, w')"
      "\<exists>line\<in>set (warning_lines logic_app_name failure). stdout_write line = Some e"
      "posts w' = posts w"
    using print_outcome [of "warning_lines logic_app_name failure" stdout_write w] by blast
  then have reg:
    "fst (snd R) = self \<and> posts (snd (snd R)) = posts w \<and>
     ((\<forall>line\<in>set (warning_lines logic_app_name failure). stdout_write line = None) \<longrightarrow>
        fst R = Inr () \<and> length (stdout (snd (snd R))) = length (stdout w) + 2) \<and>
     (\<forall>e. fst R = Inl e \<longrightarrow> (\<exists>line. stdout_write line = Some e))"
  proof cases
    case accepted
    then show ?thesis
      by (simp add: R) (simp add: warning_lines_def)
  next
    case raised
    then show ?thesis
      by (auto simp add: R)
  qed
  then have self: "fst (snd R) = self"
    by simp
  have "logic_app_name \<notin> dom (callback_urls self) \<longrightarrow>
          posts (snd (snd (invoke_logic_app fmt stdout_write requests_post (fst (snd R))
            logic_app_name payload (snd (snd R))))) = posts w \<and>
          ((\<forall>line\<in>set (simulated_lines fmt payload). stdout_write line = None) \<longrightarrow>
             fst (invoke_logic_app fmt stdout_write requests_post (fst (snd R))
               logic_app_name payload (snd (snd R))) =
               Inr [(py ''result'',
                     py ''Successfully simulated email via '' @ logic_app_name @ py ''.'')])"
    using reg invoke_unregistered_posts [of logic_app_name self fmt stdout_write requests_post
        payload "snd (snd R)"]
      invoke_unregistered_accepted [of logic_app_name self fmt payload stdout_write
        requests_post "snd (snd R)"]
    by (simp add: self)
  with reg show ?thesis
    unfolding R_def failure_def by blast
qed

theorem register_failure_leaves_registry_witness:
  "register_logic_app (\<lambda>rg n t. CallbackRaises (PyExc True (py ''ResourceNotFound''))) utf8_stdout (init (py ''sub'') (py ''rg'')) (py ''agent-logic-apps'')
       (py ''When_a_HTTP_request_is_received'') (\<lparr>stdout = [], posts = []\<rparr> :: pystr world) =
     (Inr (), init (py ''sub'') (py ''rg''),
      \<lparr>stdout = warning_lines (py ''agent-logic-apps'') (PyExc True (py ''ResourceNotFound'')),
       posts = []\<rparr>) \<and>
   fst (invoke_logic_app (\<lambda>s. s) utf8_stdout (\<lambda>r. Response 200 [])
         (fst (snd (register_logic_app (\<lambda>rg n t. CallbackRaises (PyExc True (py ''ResourceNotFound''))) utf8_stdout (init (py ''sub'') (py ''rg'')) (py ''agent-logic-apps'')
            (py ''When_a_HTTP_request_is_received'') \<lparr>stdout = [], posts = []\<rparr>)))
         (py ''agent-logic-apps'') [py ''to'' \<mapsto> py ''a@b.com'']
         (snd (snd (register_logic_app (\<lambda>rg n t. CallbackRaises (PyExc True (py ''ResourceNotFound''))) utf8_stdout (init (py ''sub'') (py ''rg'')) (py ''agent-logic-apps'')
            (py ''When_a_HTTP_request_is_received'') \<lparr>stdout = [], posts = []\<rparr>)))) =
     Inr [(py ''result'', py ''Successfully simulated email via agent-logic-apps.'')]"
  using register_failure_leaves_registry
    [where list_callback_url = "(\<lambda>rg n t. CallbackRaises (PyExc True (py ''ResourceNotFound'')))" and stdout_write = utf8_stdout
       and self = "init (py ''sub'') (py ''rg'')" and logic_app_name = "py ''agent-logic-apps''"
       and trigger_name = "py ''When_a_HTTP_request_is_received''" and w = "\<lparr>stdout = [], posts = []\<rparr>"
       and fmt = "\<lambda>s. s" and requests_post = "\<lambda>r. Response 200 []" and payload = "[py ''to'' \<mapsto> py ''a@b.com'']"]
  by (simp add: init_def py_def register_logic_app_def invoke_logic_app_def warning_lines_def
      simulated_lines_def get_formatted_def utf8_stdout_def is_surrogate_def)

text \<open>
  C4 as the specification words it (no exception propagates from a failed
  registration) fails: the caller's name holds a surrogate, the resolver raises, and on a
  standard output in UTF-8 the first print of the handler, which shows the name, raises
  \<open>UnicodeEncodeError\<close>; it leaves \<open>register_logic_app\<close>. The registry is as it was.
\<close>

theorem register_failure_propagates_counterexample:
  "register_logic_app (\<lambda>rg n t. CallbackRaises (PyExc True (py ''ResourceNotFound''))) utf8_stdout (init (py ''sub'') (py ''rg'')) (py ''agent-'' @ [55296])
       (py ''When_a_HTTP_request_is_received'') (\<lparr>stdout = [], posts = []\<rparr> :: pystr world) =
     (Inl (PyExc True
        ([39] @ py ''utf-8'' @ [39] @ py '' codec can'' @ [39] @ py ''t encode character '' @
         [39, 92] @ py ''ud800'' @ [39] @ py '' in position 48: surrogates not allowed'')),
      init (py ''sub'') (py ''rg''), \<lparr>stdout = [], posts = []\<rparr>)"
  by (simp add: register_logic_app_def init_def py_def warning_lines_def utf8_stdout_def
      is_surrogate_def u_escape_def hex4_def hex_digit_def str_int_def digits.simps)

lemma print_posts_eq: "print stdout_write lines w = (raised, w') \<Longrightarrow> posts w' = posts w"
  using print_posts [of stdout_write lines w] by simp

lemma register_posts:
  "posts (snd (snd (register_logic_app list_callback_url stdout_write self logic_app_name
     trigger_name w))) = posts w"
  by (auto simp add: register_logic_app_def Let_def
      split: callback_outcome.splits option.splits prod.splits dest: print_posts_eq)

lemma register_resolved_registry:
  "list_callback_url (resource_group self) logic_app_name trigger_name =
     Callback (Some endpoint) \<Longrightarrow>
   callback_urls (fst (snd (register_logic_app list_callback_url stdout_write self
     logic_app_name trigger_name w))) = (callback_urls self)(logic_app_name \<mapsto> Some endpoint) \<and>
   resource_group (fst (snd (register_logic_app list_callback_url stdout_write self
     logic_app_name trigger_name w))) = resource_group self"
  by (auto simp add: register_logic_app_def Let_def split: option.splits prod.splits)

lemma invoke_registered_posts:
  "callback_urls self logic_app_name = Some endpoint \<Longrightarrow>
   posts (snd (snd (invoke_logic_app fmt stdout_write requests_post self logic_app_name
     payload w))) = posts w @ [\<lparr>url = endpoint, json = payload, timeout = 30\<rparr>]"
  by (auto simp add: invoke_logic_app_def Let_def domIff
      split: post_outcome.splits option.splits)

text \<open>
  C6. Two calls of \<open>register_logic_app\<close> for the same name, each with a resolver that
  returns an endpoint: afterwards the registry is the one before with the name mapped to
  the second endpoint (every other name as before), neither call posts anything, and
  the next \<open>invoke_logic_app\<close> for the name posts to the second endpoint. Both calls
  return normally when the standard output accepts the line that reports a
  registration.
\<close>

theorem register_twice_last_wins:
  assumes "list_callback_url1 (resource_group self) logic_app_name trigger1 =
             Callback (Some endpoint1)"
      and "list_callback_url2 (resource_group self) logic_app_name trigger2 =
             Callback (Some endpoint2)"
      and "register_logic_app list_callback_url1 stdout_write self logic_app_name trigger1 w =
             (r1, self1, w1)"
      and "register_logic_app list_callback_url2 stdout_write self1 logic_app_name trigger2 w1 =
             (r2, self2, w2)"
  shows "(stdout_write (registered_line logic_app_name) = None \<longrightarrow>
            r1 = Inr () \<and> r2 = Inr ()) \<and>
         callback_urls self1 = (callback_urls self)(logic_app_name \<mapsto> Some endpoint1) \<and>
         callback_urls self2 = (callback_urls self)(logic_app_name \<mapsto> Some endpoint2) \<and>
         posts (snd (snd (invoke_logic_app fmt stdout_write requests_post self2 logic_app_name
           payload w2))) =
           posts w @ [\<lparr>url = Some endpoint2, json = payload, timeout = 30\<rparr>]"
proof -
  have s1: "callback_urls self1 = (callback_urls self)(logic_app_name \<mapsto> Some endpoint1)"
    and g1: "resource_group self1 = resource_group self"
    using register_resolved_registry [of list_callback_url1 self logic_app_name trigger1
        endpoint1 stdout_write w] assms(1) assms(3) by simp_all
  have s2: "callback_urls self2 = (callback_urls self1)(logic_app_name \<mapsto> Some endpoint2)"
    using register_resolved_registry [of list_callback_url2 self1 logic_app_name trigger2
        endpoint2 stdout_write w1] assms(2) assms(4) g1 by simp
  have p1: "posts w1 = posts w"
    using register_posts [of list_callback_url1 stdout_write self logic_app_name trigger1 w]
      assms(3) by simp
  have p2: "posts w2 = posts w1"
    using register_posts [of list_callback_url2 stdout_write self1 logic_app_name trigger2 w1]
      assms(4) by simp
  have returns: "stdout_write (registered_line logic_app_name) = None \<longrightarrow>
      r1 = Inr () \<and> r2 = Inr ()"
    using assms g1 by (auto simp add: register_logic_app_def Let_def)
  have "posts (snd (snd (invoke_logic_app fmt stdout_write requests_post self2 logic_app_name
           payload w2))) = posts w2 @ [\<lparr>url = Some endpoint2, json = payload, timeout = 30\<rparr>]"
    by (rule invoke_registered_posts) (simp add: s2)
  with returns s1 s2 p1 p2 show ?thesis
    by simp
qed

theorem register_twice_last_wins_witness:
  "register_logic_app (\<lambda>rg n t. Callback (Some (py ''https://one.example''))) utf8_stdout (init (py ''sub'') (py ''rg'')) (py ''wf'') (py ''manual'') (\<lparr>stdout = [], posts = []\<rparr> :: pystr world) =
     (Inr (), (init (py ''sub'') (py ''rg''))\<lparr>callback_urls := [py ''wf'' \<mapsto> Some (py ''https://one.example'')]\<rparr>, \<lparr>stdout = [[9989] @ py '' Registered Logic App: wf''], posts = []\<rparr>) \<and>
   register_logic_app (\<lambda>rg n t. Callback (Some (py ''https://two.example''))) utf8_stdout ((init (py ''sub'') (py ''rg''))\<lparr>callback_urls := [py ''wf'' \<mapsto> Some (py ''https://one.example'')]\<rparr>) (py ''wf'') (py ''manual'') (\<lparr>stdout = [[9989] @ py '' Registered Logic App: wf''], posts = []\<rparr> :: pystr world) =
     (Inr (), (init (py ''sub'') (py ''rg''))\<lparr>callback_urls := [py ''wf'' \<mapsto> Some (py ''https://two.example'')]\<rparr>, \<lparr>stdout = [[9989] @ py '' Registered Logic App: wf'', [9989] @ py '' Registered Logic App: wf''], posts = []\<rparr>) \<and>
   callback_urls ((init (py ''sub'') (py ''rg''))\<lparr>callback_urls := [py ''wf'' \<mapsto> Some (py ''https://two.example'')]\<rparr>) (py ''wf'') = Some (Some (py ''https://two.example'')) \<and>
   posts (snd (snd (invoke_logic_app (\<lambda>s. s) utf8_stdout (\<lambda>r. Response 202 []) ((init (py ''sub'') (py ''rg''))\<lparr>callback_urls := [py ''wf'' \<mapsto> Some (py ''https://two.example'')]\<rparr>)
       (py ''wf'') [py ''to'' \<mapsto> py ''a@b.com''] \<lparr>stdout = [[9989] @ py '' Registered Logic App: wf'', [9989] @ py '' Registered Logic App: wf''], posts = []\<rparr>))) =
     [\<lparr>url = Some (py ''https://two.example''), json = [py ''to'' \<mapsto> py ''a@b.com''], timeout = 30\<rparr>]"
  using register_twice_last_wins
    [where ?list_callback_url1.0 = "(\<lambda>rg n t. Callback (Some (py ''https://one.example'')))" and ?list_callback_url2.0 = "(\<lambda>rg n t. Callback (Some (py ''https://two.example'')))"
       and stdout_write = utf8_stdout
       and self = "init (py ''sub'') (py ''rg'')" and logic_app_name = "py ''wf''"
       and ?trigger1.0 = "py ''manual''" and ?trigger2.0 = "py ''manual''"
       and ?endpoint1.0 = "py ''https://one.example''"
       and ?endpoint2.0 = "py ''https://two.example''"
       and w = "\<lparr>stdout = [], posts = []\<rparr>" and ?r1.0 = "Inr ()" and ?r2.0 = "Inr ()"
       and ?self1.0 = "(init (py ''sub'') (py ''rg''))\<lparr>callback_urls := [py ''wf'' \<mapsto> Some (py ''https://one.example'')]\<rparr>" and ?self2.0 = "(init (py ''sub'') (py ''rg''))\<lparr>callback_urls := [py ''wf'' \<mapsto> Some (py ''https://two.example'')]\<rparr>" and ?w1.0 = "\<lparr>stdout = [[9989] @ py '' Registered Logic App: wf''], posts = []\<rparr>" and ?w2.0 = "\<lparr>stdout = [[9989] @ py '' Registered Logic App: wf'', [9989] @ py '' Registered Logic App: wf''], posts = []\<rparr>"
       and fmt = "\<lambda>s. s" and requests_post = "\<lambda>r. Response 202 []" and payload = "[py ''to'' \<mapsto> py ''a@b.com'']"]
  by (simp add: init_def py_def register_logic_app_def registered_line_def utf8_stdout_def
      is_surrogate_def)

subsection \<open>The registry\<close>

lemma invoke_self:
  "fst (snd (invoke_logic_app fmt stdout_write requests_post self logic_app_name payload w)) =
     self"
  by (auto simp add: invoke_logic_app_def Let_def
      split: post_outcome.splits option.splits prod.splits sum.splits)

lemma send_email_self:
  "fst (snd (send_email_via_logic_app stdout_write requests_post logic_app_name to subject
     body service w)) = service"
  using invoke_self [of "\<lambda>s. s" stdout_write requests_post service logic_app_name
      "[py ''to'' \<mapsto> to, py ''subject'' \<mapsto> subject, py ''body'' \<mapsto> body]" w]
  by (auto simp add: send_email_via_logic_app_def split: prod.splits sum.splits option.splits)

text \<open>
  C8. \<open>invoke_logic_app\<close> and the function made by \<open>create_send_email_function\<close> leave the
  registry as it was, whatever the name, the payload, the answer of the network and
  the behaviour of the standard output: simulation, success, error status, exception
  caught or exception let through.
\<close>

theorem invoke_leaves_registry:
  "callback_urls (fst (snd (invoke_logic_app fmt stdout_write requests_post self logic_app_name
     payload w))) = callback_urls self \<and>
   callback_urls (fst (snd (create_send_email_function logic_app_name stdout_write'
       requests_post' to subject body self w'))) =
     callback_urls self"
  by (simp add: invoke_self send_email_self create_send_email_function_def)

text \<open>
  C9. No endpoint in the registry is \<open>None\<close>: this holds for the object the constructor
  makes, whose registry is empty, and each operation (\<open>register_logic_app\<close> with any
  resolver, \<open>invoke_logic_app\<close>, the function made by \<open>create_send_email_function\<close>)
  keeps it, whatever the standard output does. A resolver answer whose \<open>value\<close> is
  \<open>None\<close> adds no entry: the registry stays as it was.
\<close>

theorem registry_endpoints_never_none:
  "callback_urls (init subscription_id' resource_group') = Map.empty \<and>
   None \<notin> ran (callback_urls (init subscription_id' resource_group')) \<and>
   (None \<notin> ran (callback_urls self) \<longrightarrow>
      None \<notin> ran (callback_urls (fst (snd
        (register_logic_app list_callback_url stdout_write self logic_app_name trigger_name
           w)))) \<and>
      None \<notin> ran (callback_urls (fst (snd
        (invoke_logic_app fmt stdout_write requests_post self logic_app_name payload w1)))) \<and>
      None \<notin> ran (callback_urls (fst (snd
        (create_send_email_function logic_app_name stdout_write requests_post' to subject body
           self w2))))) \<and>
   (list_callback_url (resource_group self) logic_app_name trigger_name = Callback None \<longrightarrow>
      callback_urls (fst (snd
        (register_logic_app list_callback_url stdout_write self logic_app_name trigger_name
           w))) =
        callback_urls self)"
proof (intro conjI impI)
  show "callback_urls (init subscription_id' resource_group') = Map.empty"
    by (simp add: init_def)
  show "None \<notin> ran (callback_urls (init subscription_id' resource_group'))"
    by (simp add: init_def)
next
  assume inv: "None \<notin> ran (callback_urls self)"
  show "None \<notin> ran (callback_urls (fst (snd
          (register_logic_app list_callback_url stdout_write self logic_app_name trigger_name
             w))))"
    using inv
    by (auto simp add: register_logic_app_def Let_def ran_def
        split: callback_outcome.splits if_splits option.splits prod.splits)
  show "None \<notin> ran (callback_urls (fst (snd
          (invoke_logic_app fmt stdout_write requests_post self logic_app_name payload w1))))"
    using inv by (simp add: invoke_self)
  show "None \<notin> ran (callback_urls (fst (snd
          (create_send_email_function logic_app_name stdout_write requests_post' to subject
             body self w2))))"
    using inv by (simp add: send_email_self create_send_email_function_def)
next
  assume "list_callback_url (resource_group self) logic_app_name trigger_name = Callback None"
  then show "callback_urls (fst (snd
          (register_logic_app list_callback_url stdout_write self logic_app_name trigger_name
             w))) = callback_urls self"
    by (auto simp add: register_logic_app_def Let_def split: option.splits prod.splits)
qed

theorem registry_endpoints_never_none_witness:
  "None \<notin> ran (callback_urls (init (py ''sub'') (py ''rg''))) \<and>
   None \<notin> ran (callback_urls (fst (snd
     (register_logic_app (\<lambda>rg n t. Callback (Some (py ''https://example.org/hook'')))
        utf8_stdout (init (py ''sub'') (py ''rg'')) (py ''wf'') (py ''manual'') (\<lparr>stdout = [], posts = []\<rparr> :: pystr world))))) \<and>
   callback_urls (fst (snd
     (register_logic_app (\<lambda>rg n t. Callback (Some (py ''https://example.org/hook'')))
        utf8_stdout (init (py ''sub'') (py ''rg'')) (py ''wf'') (py ''manual'') (\<lparr>stdout = [], posts = []\<rparr> :: pystr world)))) (py ''wf'') =
     Some (Some (py ''https://example.org/hook'')) \<and>
   callback_urls (fst (snd
     (register_logic_app (\<lambda>rg n t. Callback None)
        utf8_stdout (init (py ''sub'') (py ''rg'')) (py ''wf'') (py ''manual'') (\<lparr>stdout = [], posts = []\<rparr> :: pystr world)))) =
     callback_urls (init (py ''sub'') (py ''rg''))"
  using registry_endpoints_never_none
    [where subscription_id' = "py ''sub''" and resource_group' = "py ''rg''" and self = "init (py ''sub'') (py ''rg'')"
       and list_callback_url = "\<lambda>rg n t. Callback (Some (py ''https://example.org/hook''))"
       and stdout_write = utf8_stdout
       and logic_app_name = "py ''wf''" and trigger_name = "py ''manual''"
       and w = "\<lparr>stdout = [], posts = []\<rparr> :: pystr world"]
    registry_endpoints_never_none
    [where self = "init (py ''sub'') (py ''rg'')" and list_callback_url = "\<lambda>rg n t. Callback None"
       and stdout_write = utf8_stdout
       and logic_app_name = "py ''wf''" and trigger_name = "py ''manual''"
       and w = "\<lparr>stdout = [], posts = []\<rparr> :: pystr world"]
  by (simp add: init_def register_logic_app_def Let_def split: prod.splits option.splits)

subsection \<open>The JSON text\<close>


























subsection \<open>The function made by create_send_email_function\<close>




end
